theory Spec2Isabelle
  imports Complex_Main
begin

section \<open>Data model of package autoquery\<close>

text \<open>
  Modelled from the spec: the filter variants of an Expression. The declaration of the
  filter types is not part of the available sources; the source only shows that a value
  \<^verbatim>\<open>&equalsFilter{}\<close> exists and that filters are compared by their dynamic type.
  An equals filter carries its operand; every other variant carries the name of its kind
  and its operand.
\<close>

datatype exprFilter = EqualsFilter string | OtherFilter string string

text \<open>
  Modelled from the spec: \<^verbatim>\<open>typesMatch(a, b)\<close>, which is not part of the available
  sources, holds when both interface values have the same dynamic type. A missing map
  entry reads as the nil interface (\<open>None\<close>), whose type differs from every filter type.
\<close>

fun typesMatch :: "exprFilter option \<Rightarrow> exprFilter option \<Rightarrow> bool" where
  "typesMatch None None = True"
| "typesMatch (Some (EqualsFilter a)) (Some (EqualsFilter b)) = True"
| "typesMatch (Some (OtherFilter k a)) (Some (OtherFilter k' b)) = (k = k')"
| "typesMatch a b = False"

text \<open>
  Modelled from the spec: the Expression consumed by the selector. Its declaration is
  not part of the available sources; the fields are the ones the source reads.
\<close>

record Expression =
  filters :: "string \<rightharpoonup> exprFilter"
  consistentRead :: bool
  orderSpecified :: bool
  orderAttribute :: string
  attributesSpecified :: bool
  attributes :: "string list"

text \<open>
  Modelled from the spec: the struct \<^verbatim>\<open>tableIndex\<close>. Its declaration is not part of the
  available sources; the fields are the ones the source reads and writes. The Go map
  used as a set of attribute names is a set here; the item counts are Go \<^verbatim>\<open>int\<close>
  values that are only stored and compared, never added, so they are integers.
\<close>

record tableIndex =
  Name :: string
  PartitionKey :: string
  SortKey :: string
  Size :: int
  AttributeSet :: "string set"
  IncludesAllAttributes :: bool
  ConsistentReadable :: bool
  IsSparse :: bool

text \<open>The zero value of the struct, which a Go composite literal starts from.\<close>

definition zeroTableIndex :: tableIndex where
  "zeroTableIndex =
     \<lparr>Name = [], PartitionKey = [], SortKey = [], Size = 0, AttributeSet = {},
      IncludesAllAttributes = False, ConsistentReadable = False, IsSparse = False\<rparr>"

section \<open>Viability analysis\<close>

text \<open>\<^verbatim>\<open>strings.Join\<close> of the Go standard library.\<close>

fun Join :: "string list \<Rightarrow> string \<Rightarrow> string" where
  "Join [] sep = []"
| "Join [x] sep = x"
| "Join (x # y # ys) sep = x @ sep @ Join (y # ys) sep"

text \<open>
  \<^verbatim>\<open>listIndexViabilityInfractions\<close> is a sequence of five blocks, each of which may append
  to the slice \<^verbatim>\<open>notViableReasons\<close>. Every block is a function from the slice before
  the block to the slice after it; the function itself chains them in source order.
  The method never reads its receiver, which is left out.
\<close>

definition checkPartitionKey :: "tableIndex \<Rightarrow> Expression \<Rightarrow> string list \<Rightarrow> string list" where
  "checkPartitionKey index expr notViableReasons =
     (if \<not> typesMatch (filters expr (PartitionKey index)) (Some (EqualsFilter []))
      then notViableReasons @
        [''expression does not contain an equals condition on attribute: '' @ PartitionKey index]
      else notViableReasons)"

definition checkConsistentRead :: "tableIndex \<Rightarrow> Expression \<Rightarrow> string list \<Rightarrow> string list" where
  "checkConsistentRead index expr notViableReasons =
     (if consistentRead expr \<and> \<not> ConsistentReadable index
      then notViableReasons @ [''global secondary index does not support consistent read'']
      else notViableReasons)"

definition checkOrder :: "tableIndex \<Rightarrow> Expression \<Rightarrow> string list \<Rightarrow> string list" where
  "checkOrder index expr notViableReasons =
     (if orderSpecified expr \<and> orderAttribute expr \<noteq> SortKey index
      then notViableReasons @
        [''expression specifies order, which requires an index with sort key: '' @ SortKey index]
      else notViableReasons)"

text \<open>The inner loop of the fourth block: the selected attributes the index lacks.\<close>

fun missingAttrs :: "tableIndex \<Rightarrow> string list \<Rightarrow> string list \<Rightarrow> string list" where
  "missingAttrs index [] indexMissingAttrs = indexMissingAttrs"
| "missingAttrs index (selectedAttr # rest) indexMissingAttrs =
     (if selectedAttr \<notin> AttributeSet index
      then missingAttrs index rest (indexMissingAttrs @ [selectedAttr])
      else missingAttrs index rest indexMissingAttrs)"

definition checkAttributes :: "tableIndex \<Rightarrow> Expression \<Rightarrow> string list \<Rightarrow> string list" where
  "checkAttributes index expr notViableReasons =
     (if attributesSpecified expr
      then (let indexMissingAttrs = missingAttrs index (attributes expr) []
            in if length indexMissingAttrs > 0
               then notViableReasons @
                 [''index does not include attributes: '' @ Join indexMissingAttrs '', '']
               else notViableReasons)
      else if \<not> IncludesAllAttributes index
      then notViableReasons @
        [''expression does not select attributes, so it requires an index that projects all'']
      else notViableReasons)"

definition checkSparse :: "tableIndex \<Rightarrow> Expression \<Rightarrow> string list \<Rightarrow> string list" where
  "checkSparse index expr notViableReasons =
     (if IsSparse index
      then (case filters expr (SortKey index) of
              None \<Rightarrow> notViableReasons @
                [''expression does not filter on sparse secondary index's sort key: '' @
                   SortKey index]
            | Some f \<Rightarrow> notViableReasons)
      else notViableReasons)"

definition listIndexViabilityInfractions :: "tableIndex \<Rightarrow> Expression \<Rightarrow> string list" where
  "listIndexViabilityInfractions index expr =
     checkSparse index expr
       (checkAttributes index expr
         (checkOrder index expr
           (checkConsistentRead index expr
             (checkPartitionKey index expr []))))"

section \<open>Table descriptions and the metadata parser\<close>

text \<open>
  The table description of the AWS SDK, as far as the parser reads it. A Go pointer that
  the source dereferences is an option (\<open>None\<close> is nil). The global and the local
  secondary index descriptions have the same fields and share one record, with the field
  names prefixed by \<open>desc\<close>. A nil slice and an empty slice are both the empty list.
\<close>

record KeySchemaElement =
  AttributeName :: string
  KeyType :: string

record Projection =
  ProjectionType :: string
  NonKeyAttributes :: "string list"

record SecondaryIndexDescription =
  descIndexName :: "string option"
  descItemCount :: "int option"
  descKeySchema :: "KeySchemaElement list"
  descProjection :: Projection

record TableDescription =
  ItemCount :: "int option"
  KeySchema :: "KeySchemaElement list"
  GlobalSecondaryIndexes :: "SecondaryIndexDescription list"
  LocalSecondaryIndexes :: "SecondaryIndexDescription list"

text \<open>
  The parsed metadata of one table. The parser of the querying client builds
  \<^verbatim>\<open>Indexes\<close> as a slice by appending, so it is a list in insertion order.
\<close>

record tableIndexMetadata =
  Indexes :: "tableIndex list"

text \<open>
  Modelled from the spec: the constant \<^verbatim>\<open>tablePrimaryIndexName\<close>, whose declaration is
  not part of the available sources, is a reserved sentinel name. Its value is never
  inspected below.
\<close>

definition tablePrimaryIndexName :: string where
  "tablePrimaryIndexName = []"

text \<open>
  Modelled from the spec: \<^verbatim>\<open>loadKeysFromSchema\<close>, which is not part of the available
  sources. The partition key is the HASH element of the key schema, the sort key the
  RANGE element when there is one.
\<close>

fun loadKeysFromSchema :: "tableIndex \<Rightarrow> KeySchemaElement list \<Rightarrow> tableIndex" where
  "loadKeysFromSchema index [] = index"
| "loadKeysFromSchema index (e # es) =
     loadKeysFromSchema
       (if KeyType e = ''HASH'' then index\<lparr>PartitionKey := AttributeName e\<rparr>
        else if KeyType e = ''RANGE'' then index\<lparr>SortKey := AttributeName e\<rparr>
        else index) es"

text \<open>
  Modelled from the spec: \<^verbatim>\<open>getKeys\<close>, which is not part of the available sources,
  lists the key attributes of an index; an index without a sort key has one key.
\<close>

definition getKeys :: "tableIndex \<Rightarrow> string list" where
  "getKeys index =
     (if SortKey index = [] then [PartitionKey index]
      else [PartitionKey index, SortKey index])"

text \<open>
  Modelled from the spec: \<^verbatim>\<open>loadAttributesFromProjection\<close>, which is not part of the
  available sources. An ALL projection makes the index include all attributes; a
  KEYS_ONLY or INCLUDE projection gives the explicit set of the projected attributes and
  the keys of the primary index.
\<close>

definition loadAttributesFromProjection ::
    "tableIndex \<Rightarrow> Projection \<Rightarrow> string list \<Rightarrow> tableIndex" where
  "loadAttributesFromProjection index projection tablePrimaryIndexKeys =
     (if ProjectionType projection = ''ALL'' then index\<lparr>IncludesAllAttributes := True\<rparr>
      else index\<lparr>AttributeSet := set (NonKeyAttributes projection) \<union> set tablePrimaryIndexKeys\<rparr>)"

text \<open>
  Modelled from the spec: \<^verbatim>\<open>inferSparseness\<close>, which is not part of the available
  sources. The index is non-sparse when the ratio of its item count to the item count of
  the table is greater than or equal to the threshold, and sparse otherwise. The
  threshold and the ratio are float64 values in the source; they are exact rationals
  here, so the rounding of the quotient is not modelled. For a table without items the
  spec names no ratio; the quotient of the rationals is then zero.
\<close>

definition inferSparseness :: "tableIndex \<Rightarrow> int \<Rightarrow> rat \<Rightarrow> tableIndex" where
  "inferSparseness index tableSize threshold =
     index\<lparr>IsSparse := \<not> threshold \<le> of_int (Size index) / of_int tableSize\<rparr>"

text \<open>
  The bodies of the two loops over the secondary index descriptions. Dereferencing a nil
  \<^verbatim>\<open>IndexName\<close> or \<^verbatim>\<open>ItemCount\<close> panics: the result is \<open>None\<close>.
\<close>

definition parseGlobalSecondaryIndex ::
    "rat \<Rightarrow> int \<Rightarrow> string list \<Rightarrow> SecondaryIndexDescription \<Rightarrow> tableIndex option" where
  "parseGlobalSecondaryIndex threshold tableSize tablePrimaryIndexKeys gsi =
     (case descIndexName gsi of
        None \<Rightarrow> None
      | Some name \<Rightarrow>
          (case descItemCount gsi of
             None \<Rightarrow> None
           | Some count \<Rightarrow>
               Some (inferSparseness
                 (loadAttributesFromProjection
                   (loadKeysFromSchema
                     (zeroTableIndex\<lparr>Name := name, Size := count, ConsistentReadable := False\<rparr>)
                     (descKeySchema gsi))
                   (descProjection gsi) tablePrimaryIndexKeys)
                 tableSize threshold)))"

definition parseLocalSecondaryIndex ::
    "rat \<Rightarrow> int \<Rightarrow> string list \<Rightarrow> SecondaryIndexDescription \<Rightarrow> tableIndex option" where
  "parseLocalSecondaryIndex threshold tableSize tablePrimaryIndexKeys lsi =
     (case descIndexName lsi of
        None \<Rightarrow> None
      | Some name \<Rightarrow>
          (case descItemCount lsi of
             None \<Rightarrow> None
           | Some count \<Rightarrow>
               Some (inferSparseness
                 (loadAttributesFromProjection
                   (loadKeysFromSchema
                     (zeroTableIndex\<lparr>Name := name, Size := count, ConsistentReadable := True,
                        IsSparse := True\<rparr>)
                     (descKeySchema lsi))
                   (descProjection lsi) tablePrimaryIndexKeys)
                 tableSize threshold)))"

text \<open>A loop over index descriptions: every parsed index is appended to the output.\<close>

fun appendIndexes ::
    "(SecondaryIndexDescription \<Rightarrow> tableIndex option) \<Rightarrow> SecondaryIndexDescription list \<Rightarrow>
     tableIndex list \<Rightarrow> tableIndex list option" where
  "appendIndexes body [] output = Some output"
| "appendIndexes body (d # ds) output =
     (case body d of
        None \<Rightarrow> None
      | Some index \<Rightarrow> appendIndexes body ds (output @ [index]))"

text \<open>
  The method \<^verbatim>\<open>parseTableIndexMetadata\<close> of the client, which reads the sparseness
  threshold of the client. \<open>None\<close> is a nil-pointer panic.
\<close>

definition parseTableIndexMetadata :: "rat \<Rightarrow> TableDescription \<Rightarrow> tableIndexMetadata option" where
  "parseTableIndexMetadata threshold table =
     (case ItemCount table of
        None \<Rightarrow> None
      | Some tableSize \<Rightarrow>
          (let tablePrimaryIndex =
                 loadKeysFromSchema
                   (zeroTableIndex\<lparr>Name := tablePrimaryIndexName, Size := tableSize,
                      IncludesAllAttributes := True, ConsistentReadable := True,
                      IsSparse := False\<rparr>)
                   (KeySchema table);
               tablePrimaryIndexKeys = getKeys tablePrimaryIndex
           in case appendIndexes
                     (parseGlobalSecondaryIndex threshold tableSize tablePrimaryIndexKeys)
                     (GlobalSecondaryIndexes table) [tablePrimaryIndex] of
                None \<Rightarrow> None
              | Some output \<Rightarrow>
                  (case appendIndexes
                          (parseLocalSecondaryIndex threshold tableSize tablePrimaryIndexKeys)
                          (LocalSecondaryIndexes table) output of
                     None \<Rightarrow> None
                   | Some output' \<Rightarrow> Some \<lparr>Indexes = output'\<rparr>)))"

section \<open>The querying client and its metadata cache\<close>

text \<open>
  Modelled from the spec: the two error structs, whose declarations are not part of the
  available sources. A nil-pointer panic and the error of the metadata provider are the
  other two ways a call can fail.
\<close>

record ErrIndexNotViable =
  IndexName :: string
  NotViableReasons :: "string list"

datatype 'e queryError =
    NilPointerPanic
  | ProviderError 'e
  | ErrNoViableIndexes "ErrIndexNotViable list"

text \<open>
  The client. The metadata provider is an external service: it is a function of its own
  state \<open>'p\<close>, which every call may change, and it returns the pair of a table
  description pointer and an error, as \<^verbatim>\<open>Get\<close> does. The context argument is passed
  through to the provider only and is left out.
\<close>

record ('e, 'p) Client =
  metadataProvider :: "'p \<Rightarrow> string \<Rightarrow> (TableDescription option \<times> 'e option) \<times> 'p"
  tableIndexMetadataCache :: "string \<rightharpoonup> tableIndexMetadata"
  SecondaryIndexSparsenessThreshold :: rat

definition pullIndexMetadata ::
    "('e, 'p) Client \<Rightarrow> 'p \<Rightarrow> string \<Rightarrow>
     ('e queryError + tableIndexMetadata) \<times> ('e, 'p) Client \<times> 'p" where
  "pullIndexMetadata client ps tableName =
     (case tableIndexMetadataCache client tableName of
        Some indexMetadata \<Rightarrow> (Inr indexMetadata, client, ps)
      | None \<Rightarrow>
          (case metadataProvider client ps tableName of
             ((tableDescription, err), ps') \<Rightarrow>
               (case err of
                  Some e \<Rightarrow> (Inl (ProviderError e), client, ps')
                | None \<Rightarrow>
                    (case tableDescription of
                       None \<Rightarrow> (Inl NilPointerPanic, client, ps')
                     | Some table \<Rightarrow>
                         (case parseTableIndexMetadata
                                 (SecondaryIndexSparsenessThreshold client) table of
                            None \<Rightarrow> (Inl NilPointerPanic, client, ps')
                          | Some indexMetadata \<Rightarrow>
                              (Inr indexMetadata,
                               client\<lparr>tableIndexMetadataCache :=
                                 (tableIndexMetadataCache client)(tableName \<mapsto> indexMetadata)\<rparr>,
                               ps'))))))"

section \<open>Index selection\<close>

text \<open>
  \<^verbatim>\<open>scoreIndexOnExpr\<close> returns a score and an error pointer (\<open>None\<close> is nil). The
  score is a float64 in the source; the only value it takes is zero. The method never
  reads its receiver, which is left out.
\<close>

definition scoreIndexOnExpr :: "tableIndex \<Rightarrow> Expression \<Rightarrow> rat \<times> ErrIndexNotViable option" where
  "scoreIndexOnExpr index expr =
     (let indexNotViableReasons = listIndexViabilityInfractions index expr
      in if length indexNotViableReasons > 0
         then (0, Some \<lparr>IndexName = Name index, NotViableReasons = indexNotViableReasons\<rparr>)
         else (0, Some \<lparr>IndexName = Name index, NotViableReasons = [''not yet implemented'']\<rparr>))"

text \<open>
  The loop of \<^verbatim>\<open>chooseIndex\<close> over the indexes, with its three variables
  \<^verbatim>\<open>bestIndex\<close> (\<open>None\<close> is nil), \<^verbatim>\<open>bestIndexScore\<close> and \<^verbatim>\<open>inviableErrs\<close>.
\<close>

fun chooseLoop ::
    "Expression \<Rightarrow> tableIndex list \<Rightarrow> tableIndex option \<Rightarrow> rat \<Rightarrow> ErrIndexNotViable list \<Rightarrow>
     tableIndex option \<times> ErrIndexNotViable list" where
  "chooseLoop expr [] bestIndex bestIndexScore inviableErrs = (bestIndex, inviableErrs)"
| "chooseLoop expr (index # rest) bestIndex bestIndexScore inviableErrs =
     (case scoreIndexOnExpr index expr of
        (indexScore, Some inviableErr) \<Rightarrow>
          chooseLoop expr rest bestIndex bestIndexScore (inviableErrs @ [inviableErr])
      | (indexScore, None) \<Rightarrow>
          (if indexScore > bestIndexScore
           then chooseLoop expr rest (Some index) indexScore inviableErrs
           else chooseLoop expr rest bestIndex bestIndexScore inviableErrs))"

definition chooseIndex ::
    "('e, 'p) Client \<Rightarrow> 'p \<Rightarrow> string \<Rightarrow> Expression \<Rightarrow>
     ('e queryError + tableIndex) \<times> ('e, 'p) Client \<times> 'p" where
  "chooseIndex client ps tableName expr =
     (case pullIndexMetadata client ps tableName of
        (Inl err, client', ps') \<Rightarrow> (Inl err, client', ps')
      | (Inr indexMetadata, client', ps') \<Rightarrow>
          (case chooseLoop expr (Indexes indexMetadata) None 0 [] of
             (None, inviableErrs) \<Rightarrow> (Inl (ErrNoViableIndexes inviableErrs), client', ps')
           | (Some bestIndex, inviableErrs) \<Rightarrow> (Inr bestIndex, client', ps')))"

section \<open>Concrete tables, clients and expressions\<close>

text \<open>
  A table with only a primary index on \<open>pk\<close>, and its parsed primary index.
\<close>

definition tableA :: TableDescription where
  "tableA = \<lparr>ItemCount = Some 100,
      KeySchema = [\<lparr>AttributeName = ''pk'', KeyType = ''HASH''\<rparr>],
      GlobalSecondaryIndexes = [], LocalSecondaryIndexes = []\<rparr>"

definition primaryA :: tableIndex where
  "primaryA = \<lparr>Name = tablePrimaryIndexName, PartitionKey = ''pk'', SortKey = [], Size = 100,
      AttributeSet = {}, IncludesAllAttributes = True, ConsistentReadable = True,
      IsSparse = False\<rparr>"

text \<open>
  A client with an empty cache and the default threshold. Its provider always succeeds
  with \<open>tableA\<close>; the state of the provider counts the calls made to it.
\<close>

definition clientA :: "(string, nat) Client" where
  "clientA = \<lparr>metadataProvider = (\<lambda>calls tableName. ((Some tableA, None), Suc calls)),
      tableIndexMetadataCache = Map.empty, SecondaryIndexSparsenessThreshold = 11 / 10\<rparr>"

text \<open>An expression with an equals filter on \<open>pk\<close> and nothing else.\<close>

definition exprA :: Expression where
  "exprA = \<lparr>filters = [''pk'' \<mapsto> EqualsFilter ''42''], consistentRead = False,
      orderSpecified = False, orderAttribute = [], attributesSpecified = False,
      attributes = []\<rparr>"

text \<open>The same expression, selecting the attributes \<open>a\<close> and \<open>b\<close>.\<close>

definition exprD :: Expression where
  "exprD = \<lparr>filters = [''pk'' \<mapsto> EqualsFilter ''42''], consistentRead = False,
      orderSpecified = False, orderAttribute = [], attributesSpecified = True,
      attributes = [''a'', ''b'']\<rparr>"


definition gsiB :: "int \<Rightarrow> bool \<Rightarrow> tableIndex" where
  "gsiB gsiCount sparse = \<lparr>Name = ''gsi'', PartitionKey = ''gsiPk'', SortKey = ''gsiSk'',
      Size = gsiCount, AttributeSet = {''pk''}, IncludesAllAttributes = False,
      ConsistentReadable = False, IsSparse = sparse\<rparr>"

text \<open>
  An expression with an equals filter on \<open>gsiPk\<close>, a given entry for \<open>gsiSk\<close> and
  the selected attribute \<open>pk\<close>.
\<close>

definition exprB :: "exprFilter option \<Rightarrow> Expression" where
  "exprB f = \<lparr>filters = [''gsiPk'' \<mapsto> EqualsFilter ''1''](''gsiSk'' := f),
      consistentRead = False, orderSpecified = False, orderAttribute = [],
      attributesSpecified = True, attributes = [''pk'']\<rparr>"





text \<open>
  A table with a local secondary index that projects all attributes and holds as many
  items as the table, the two parsed indexes at threshold 1, and a client for it.
\<close>

definition tableC :: TableDescription where
  "tableC = \<lparr>ItemCount = Some 100,
      KeySchema = [\<lparr>AttributeName = ''pk'', KeyType = ''HASH''\<rparr>,
                   \<lparr>AttributeName = ''sk'', KeyType = ''RANGE''\<rparr>],
      GlobalSecondaryIndexes = [],
      LocalSecondaryIndexes =
        [\<lparr>descIndexName = Some ''byDate'', descItemCount = Some 100,
          descKeySchema = [\<lparr>AttributeName = ''pk'', KeyType = ''HASH''\<rparr>,
                           \<lparr>AttributeName = ''date'', KeyType = ''RANGE''\<rparr>],
          descProjection = \<lparr>ProjectionType = ''ALL'', NonKeyAttributes = []\<rparr>\<rparr>]\<rparr>"

definition primaryC :: tableIndex where
  "primaryC = \<lparr>Name = tablePrimaryIndexName, PartitionKey = ''pk'', SortKey = ''sk'', Size = 100,
      AttributeSet = {}, IncludesAllAttributes = True, ConsistentReadable = True,
      IsSparse = False\<rparr>"

definition lsiC :: tableIndex where
  "lsiC = \<lparr>Name = ''byDate'', PartitionKey = ''pk'', SortKey = ''date'', Size = 100,
      AttributeSet = {}, IncludesAllAttributes = True, ConsistentReadable = True,
      IsSparse = False\<rparr>"

definition clientC :: "(string, nat) Client" where
  "clientC = \<lparr>metadataProvider = (\<lambda>calls tableName. ((Some tableC, None), Suc calls)),
      tableIndexMetadataCache = Map.empty, SecondaryIndexSparsenessThreshold = 1\<rparr>"

text \<open>
  A client whose provider fails on its first call and succeeds with \<open>tableA\<close> on every
  later one, and the same client once the table \<open>orders\<close> is cached.
\<close>

definition clientF :: "(string, nat) Client" where
  "clientF = \<lparr>metadataProvider =
        (\<lambda>calls tableName.
           if calls = 0 then ((None, Some ''throttled''), Suc calls)
           else ((Some tableA, None), Suc calls)),
      tableIndexMetadataCache = Map.empty, SecondaryIndexSparsenessThreshold = 11 / 10\<rparr>"

definition clientF' :: "(string, nat) Client" where
  "clientF' = clientF\<lparr>tableIndexMetadataCache := [''orders'' \<mapsto> \<lparr>Indexes = [primaryA]\<rparr>]\<rparr>"

text \<open>
  An index that neither includes all attributes nor projects any, and an expression that
  specifies an empty attribute selection.
\<close>

definition bareIndex :: tableIndex where
  "bareIndex = \<lparr>Name = ''bare'', PartitionKey = ''pk'', SortKey = [], Size = 100,
      AttributeSet = {}, IncludesAllAttributes = False, ConsistentReadable = False,
      IsSparse = False\<rparr>"

definition exprE :: Expression where
  "exprE = \<lparr>filters = [''pk'' \<mapsto> EqualsFilter ''42''], consistentRead = False,
      orderSpecified = False, orderAttribute = [], attributesSpecified = True,
      attributes = []\<rparr>"

section \<open>Properties of the viability analysis\<close>

lemma missingAttrs_filter:
  "missingAttrs index xs acc = acc @ filter (\<lambda>a. a \<notin> AttributeSet index) xs"
  by (induction xs arbitrary: acc) simp_all

text \<open>No block reads the reasons collected before it: it only appends to them.\<close>

lemma checkPartitionKey_append:
  "checkPartitionKey index expr rs = rs @ checkPartitionKey index expr []"
  by (simp add: checkPartitionKey_def)

lemma checkConsistentRead_append:
  "checkConsistentRead index expr rs = rs @ checkConsistentRead index expr []"
  by (simp add: checkConsistentRead_def)

lemma checkOrder_append:
  "checkOrder index expr rs = rs @ checkOrder index expr []"
  by (simp add: checkOrder_def)

lemma checkAttributes_append:
  "checkAttributes index expr rs = rs @ checkAttributes index expr []"
  by (simp add: checkAttributes_def Let_def)

lemma checkSparse_append:
  "checkSparse index expr rs = rs @ checkSparse index expr []"
  by (simp add: checkSparse_def split: option.splits)

lemma infractions_blocks:
  "listIndexViabilityInfractions index expr =
     checkPartitionKey index expr [] @ checkConsistentRead index expr [] @
     checkOrder index expr [] @ checkAttributes index expr [] @ checkSparse index expr []"
  unfolding listIndexViabilityInfractions_def
  apply (subst checkSparse_append)
  apply (subst checkAttributes_append)
  apply (subst checkOrder_append)
  apply (subst checkConsistentRead_append)
  apply simp
  done

lemma infractions_by_rule:
  "listIndexViabilityInfractions index expr =
     (if \<not> typesMatch (filters expr (PartitionKey index)) (Some (EqualsFilter []))
      then [''expression does not contain an equals condition on attribute: '' @ PartitionKey index]
      else []) @
     (if consistentRead expr \<and> \<not> ConsistentReadable index
      then [''global secondary index does not support consistent read'']
      else []) @
     (if orderSpecified expr \<and> orderAttribute expr \<noteq> SortKey index
      then [''expression specifies order, which requires an index with sort key: '' @ SortKey index]
      else []) @
     (if attributesSpecified expr
      then (if filter (\<lambda>a. a \<notin> AttributeSet index) (attributes expr) \<noteq> []
            then [''index does not include attributes: '' @
                    Join (filter (\<lambda>a. a \<notin> AttributeSet index) (attributes expr)) '', '']
            else [])
      else if \<not> IncludesAllAttributes index
      then [''expression does not select attributes, so it requires an index that projects all'']
      else []) @
     (if IsSparse index \<and> filters expr (SortKey index) = None
      then [''expression does not filter on sparse secondary index's sort key: '' @ SortKey index]
      else [])"
  unfolding infractions_blocks
  by (simp add: checkPartitionKey_def checkConsistentRead_def checkOrder_def
      checkAttributes_def checkSparse_def missingAttrs_filter Let_def split: option.splits)

lemma length_checkPartitionKey: "length (checkPartitionKey index expr []) \<le> 1"
  by (simp add: checkPartitionKey_def)

lemma length_checkConsistentRead: "length (checkConsistentRead index expr []) \<le> 1"
  by (simp add: checkConsistentRead_def)

lemma length_checkOrder: "length (checkOrder index expr []) \<le> 1"
  by (simp add: checkOrder_def)

lemma length_checkAttributes: "length (checkAttributes index expr []) \<le> 1"
  by (simp add: checkAttributes_def Let_def)

lemma length_checkSparse: "length (checkSparse index expr []) \<le> 1"
  by (simp add: checkSparse_def split: option.splits)

text \<open>
  When the expression specifies its attributes, the fourth block looks at the attribute
  set of the index only; whether the index includes all attributes is not read.
\<close>

lemma checkAttributes_specified:
  "attributesSpecified expr \<Longrightarrow>
   checkAttributes index expr notViableReasons =
     (if set (attributes expr) \<subseteq> AttributeSet index then notViableReasons
      else notViableReasons @
        [''index does not include attributes: '' @
           Join (filter (\<lambda>a. a \<notin> AttributeSet index) (attributes expr)) '', ''])"
  by (auto simp add: checkAttributes_def missingAttrs_filter Let_def filter_empty_conv)

lemma parse_tableA: "parseTableIndexMetadata (11 / 10) tableA = Some \<lparr>Indexes = [primaryA]\<rparr>"
  by (simp add: parseTableIndexMetadata_def tableA_def primaryA_def zeroTableIndex_def getKeys_def)

text \<open>
  C4: the reason list is the concatenation, in the fixed order partition-key equality,
  consistency, ordering, attribute coverage, sparseness, of what each of the five rules
  contributes; each contribution is decided by the index and the expression alone,
  whatever the other rules found, so every violation is collected and the same index
  and expression always give the same sequence of reasons.
\<close>

theorem listIndexViabilityInfractions_fixed_order:
  "listIndexViabilityInfractions index expr =
     checkPartitionKey index expr [] @ checkConsistentRead index expr [] @
     checkOrder index expr [] @ checkAttributes index expr [] @ checkSparse index expr [] \<and>
   checkPartitionKey index expr [] =
     (if \<not> typesMatch (filters expr (PartitionKey index)) (Some (EqualsFilter []))
      then [''expression does not contain an equals condition on attribute: '' @ PartitionKey index]
      else []) \<and>
   checkConsistentRead index expr [] =
     (if consistentRead expr \<and> \<not> ConsistentReadable index
      then [''global secondary index does not support consistent read'']
      else []) \<and>
   checkOrder index expr [] =
     (if orderSpecified expr \<and> orderAttribute expr \<noteq> SortKey index
      then [''expression specifies order, which requires an index with sort key: '' @ SortKey index]
      else []) \<and>
   checkAttributes index expr [] =
     (if attributesSpecified expr
      then (if filter (\<lambda>a. a \<notin> AttributeSet index) (attributes expr) \<noteq> []
            then [''index does not include attributes: '' @
                    Join (filter (\<lambda>a. a \<notin> AttributeSet index) (attributes expr)) '', '']
            else [])
      else if \<not> IncludesAllAttributes index
      then [''expression does not select attributes, so it requires an index that projects all'']
      else []) \<and>
   checkSparse index expr [] =
     (if IsSparse index \<and> filters expr (SortKey index) = None
      then [''expression does not filter on sparse secondary index's sort key: '' @ SortKey index]
      else [])"
proof -
  have "checkPartitionKey index expr [] =
     (if \<not> typesMatch (filters expr (PartitionKey index)) (Some (EqualsFilter []))
      then [''expression does not contain an equals condition on attribute: '' @ PartitionKey index]
      else [])"
    by (simp add: checkPartitionKey_def)
  moreover have "checkConsistentRead index expr [] =
     (if consistentRead expr \<and> \<not> ConsistentReadable index
      then [''global secondary index does not support consistent read'']
      else [])"
    by (simp add: checkConsistentRead_def)
  moreover have "checkOrder index expr [] =
     (if orderSpecified expr \<and> orderAttribute expr \<noteq> SortKey index
      then [''expression specifies order, which requires an index with sort key: '' @ SortKey index]
      else [])"
    by (simp add: checkOrder_def)
  moreover have "checkAttributes index expr [] =
     (if attributesSpecified expr
      then (if filter (\<lambda>a. a \<notin> AttributeSet index) (attributes expr) \<noteq> []
            then [''index does not include attributes: '' @
                    Join (filter (\<lambda>a. a \<notin> AttributeSet index) (attributes expr)) '', '']
            else [])
      else if \<not> IncludesAllAttributes index
      then [''expression does not select attributes, so it requires an index that projects all'']
      else [])"
    by (simp add: checkAttributes_def missingAttrs_filter Let_def)
  moreover have "checkSparse index expr [] =
     (if IsSparse index \<and> filters expr (SortKey index) = None
      then [''expression does not filter on sparse secondary index's sort key: '' @ SortKey index]
      else [])"
    by (simp add: checkSparse_def split: option.splits)
  ultimately show ?thesis
    using infractions_blocks [of index expr] by simp
qed

text \<open>
  C10: the reasons of the analysis are those of its five rules, one rule after the
  other; every rule keeps the reasons collected before it and adds at most one, so the
  analysis returns at most five reasons, and the attribute-coverage rule adds at most
  one however many selected attributes the index lacks.
\<close>

theorem at_most_five_reasons:
  "listIndexViabilityInfractions index expr =
     checkPartitionKey index expr [] @ checkConsistentRead index expr [] @
     checkOrder index expr [] @ checkAttributes index expr [] @ checkSparse index expr [] \<and>
   checkPartitionKey index expr notViableReasons =
     notViableReasons @ checkPartitionKey index expr [] \<and>
   length (checkPartitionKey index expr []) \<le> 1 \<and>
   checkConsistentRead index expr notViableReasons =
     notViableReasons @ checkConsistentRead index expr [] \<and>
   length (checkConsistentRead index expr []) \<le> 1 \<and>
   checkOrder index expr notViableReasons = notViableReasons @ checkOrder index expr [] \<and>
   length (checkOrder index expr []) \<le> 1 \<and>
   checkAttributes index expr notViableReasons =
     notViableReasons @ checkAttributes index expr [] \<and>
   length (checkAttributes index expr []) \<le> 1 \<and>
   checkSparse index expr notViableReasons = notViableReasons @ checkSparse index expr [] \<and>
   length (checkSparse index expr []) \<le> 1 \<and>
   length (listIndexViabilityInfractions index expr) \<le> 5 \<and>
   length (checkAttributes index expr notViableReasons) \<le> Suc (length notViableReasons)"
proof -
  have total: "length (listIndexViabilityInfractions index expr) \<le> 5"
    using length_checkPartitionKey [of index expr] length_checkConsistentRead [of index expr]
      length_checkOrder [of index expr] length_checkAttributes [of index expr]
      length_checkSparse [of index expr]
    by (simp add: infractions_blocks)
  have attrs: "length (checkAttributes index expr notViableReasons) \<le> Suc (length notViableReasons)"
    using length_checkAttributes [of index expr]
    by (subst checkAttributes_append) simp
  show ?thesis
    using total attrs infractions_blocks [of index expr]
      checkPartitionKey_append [of index expr notViableReasons]
      checkConsistentRead_append [of index expr notViableReasons]
      checkOrder_append [of index expr notViableReasons]
      checkAttributes_append [of index expr notViableReasons]
      checkSparse_append [of index expr notViableReasons]
      length_checkPartitionKey [of index expr] length_checkConsistentRead [of index expr]
      length_checkOrder [of index expr] length_checkAttributes [of index expr]
      length_checkSparse [of index expr]
    by blast
qed

text \<open>
  C5: for a sparse index, the sparseness rule appends the reason that names the sort key
  of the index exactly when the filters of the expression have no entry for that sort
  key, and that reason is among the reasons of the whole analysis in exactly that case;
  an entry of any filter kind satisfies the rule.
\<close>

theorem sparse_rule_sort_key:
  "IsSparse index \<Longrightarrow>
     checkSparse index expr notViableReasons =
       (if filters expr (SortKey index) = None
        then notViableReasons @
          [''expression does not filter on sparse secondary index's sort key: '' @ SortKey index]
        else notViableReasons) \<and>
     ((''expression does not filter on sparse secondary index's sort key: '' @ SortKey index)
        \<in> set (listIndexViabilityInfractions index expr)) =
       (filters expr (SortKey index) = None)"
  by (simp add: infractions_by_rule checkSparse_def split: option.splits)

theorem sparse_rule_sort_key_witness:
  "IsSparse (gsiB 50 True) \<and>
   listIndexViabilityInfractions (gsiB 50 True) (exprB None) =
     [''expression does not filter on sparse secondary index's sort key: gsiSk''] \<and>
   listIndexViabilityInfractions (gsiB 50 True) (exprB (Some (OtherFilter ''between'' ''3''))) = []"
  using sparse_rule_sort_key [of "gsiB 50 True" "exprB None" "[]"]
    sparse_rule_sort_key [of "gsiB 50 True" "exprB (Some (OtherFilter ''between'' ''3''))" "[]"]
  by (simp add: gsiB_def exprB_def listIndexViabilityInfractions_def checkSparse_def
      checkAttributes_def checkOrder_def checkConsistentRead_def checkPartitionKey_def)

text \<open>
  C9: when the expression has \<open>attributesSpecified\<close> set and an empty attribute list,
  the attribute-coverage rule adds no reason, whatever the index projects; the reason
  that asks for an index projecting all attributes is only ever added when
  \<open>attributesSpecified\<close> is false.
\<close>

theorem empty_selection_no_coverage_infraction:
  "(attributesSpecified expr \<and> attributes expr = [] \<longrightarrow>
      checkAttributes index expr notViableReasons = notViableReasons) \<and>
   (''expression does not select attributes, so it requires an index that projects all''
      \<in> set (checkAttributes index expr []) \<longrightarrow> \<not> attributesSpecified expr)"
  by (simp add: checkAttributes_def Let_def)

theorem empty_selection_no_coverage_infraction_witness:
  "attributesSpecified exprE \<and> attributes exprE = [] \<and>
   \<not> IncludesAllAttributes bareIndex \<and> AttributeSet bareIndex = {} \<and>
   checkAttributes bareIndex exprE [] = [] \<and>
   checkAttributes bareIndex exprA [] =
     [''expression does not select attributes, so it requires an index that projects all''] \<and>
   \<not> attributesSpecified exprA"
  using empty_selection_no_coverage_infraction [of exprE bareIndex "[]"]
    empty_selection_no_coverage_infraction [of exprA bareIndex "[]"]
  by (simp add: exprE_def exprA_def bareIndex_def checkAttributes_def)

text \<open>
  C2: the primary index of a table includes all attributes and has an empty attribute
  set. For an expression that selects the attributes \<open>a\<close> and \<open>b\<close>, the
  attribute-coverage rule rejects it with one combined reason naming both.
\<close>

theorem primary_index_fails_attribute_coverage:
  "parseTableIndexMetadata (11 / 10) tableA = Some \<lparr>Indexes = [primaryA]\<rparr> \<and>
   IncludesAllAttributes primaryA \<and>
   checkAttributes primaryA exprD [] = [''index does not include attributes: a, b''] \<and>
   listIndexViabilityInfractions primaryA exprD = [''index does not include attributes: a, b'']"
proof -
  have "checkAttributes primaryA exprD [] = [''index does not include attributes: a, b'']"
    by (simp add: checkAttributes_def primaryA_def exprD_def)
  moreover have "listIndexViabilityInfractions primaryA exprD =
      [''index does not include attributes: a, b'']"
    by (simp add: listIndexViabilityInfractions_def checkSparse_def checkAttributes_def
        checkOrder_def checkConsistentRead_def checkPartitionKey_def primaryA_def exprD_def)
  moreover have "IncludesAllAttributes primaryA"
    by (simp add: primaryA_def)
  ultimately show ?thesis using parse_tableA by simp
qed

section \<open>Properties of the index selection\<close>

text \<open>
  \<^verbatim>\<open>scoreIndexOnExpr\<close> returns an error for every index: the infractions of the index
  when there are some, and the single reason \<open>not yet implemented\<close> when there are none.
\<close>

lemma scoreIndexOnExpr_err:
  "scoreIndexOnExpr index expr =
     (0, Some \<lparr>IndexName = Name index,
        NotViableReasons =
          (if listIndexViabilityInfractions index expr = [] then [''not yet implemented'']
           else listIndexViabilityInfractions index expr)\<rparr>)"
  by (simp add: scoreIndexOnExpr_def Let_def)

text \<open>So the loop never replaces the best index and collects one error per index.\<close>

lemma chooseLoop_collects:
  "chooseLoop expr indexes bestIndex bestIndexScore inviableErrs =
     (bestIndex, inviableErrs @ map (\<lambda>index. the (snd (scoreIndexOnExpr index expr))) indexes)"
  by (induction indexes arbitrary: inviableErrs) (simp_all add: scoreIndexOnExpr_err)

lemma chooseIndex_never_selects:
  "fst (chooseIndex client ps tableName expr) \<noteq> Inr index"
  by (simp add: chooseIndex_def chooseLoop_collects split: prod.splits sum.splits)

lemma parse_tableC:
  "parseTableIndexMetadata 1 tableC = Some \<lparr>Indexes = [primaryC, lsiC]\<rparr>"
  by (simp add: parseTableIndexMetadata_def tableC_def primaryC_def lsiC_def zeroTableIndex_def
      getKeys_def parseLocalSecondaryIndex_def loadAttributesFromProjection_def
      inferSparseness_def)

text \<open>
  C1: for the table whose only index is the primary index on \<open>pk\<close> and an expression
  with an equals filter on \<open>pk\<close>, the primary index has no infraction, and
  \<^verbatim>\<open>chooseIndex\<close> returns the error that no index is viable, with the reason
  \<open>not yet implemented\<close> for the primary index, instead of the primary index.
\<close>

theorem chooseIndex_primary_only:
  "parseTableIndexMetadata (11 / 10) tableA = Some \<lparr>Indexes = [primaryA]\<rparr> \<and>
   listIndexViabilityInfractions primaryA exprA = [] \<and>
   fst (chooseIndex clientA 0 ''orders'' exprA) =
     Inl (ErrNoViableIndexes
       [\<lparr>IndexName = tablePrimaryIndexName, NotViableReasons = [''not yet implemented'']\<rparr>])"
proof -
  have v: "listIndexViabilityInfractions primaryA exprA = []"
    by (simp add: listIndexViabilityInfractions_def checkSparse_def checkAttributes_def
        checkOrder_def checkConsistentRead_def checkPartitionKey_def primaryA_def exprA_def)
  have p: "pullIndexMetadata clientA 0 ''orders'' =
      (Inr \<lparr>Indexes = [primaryA]\<rparr>,
       clientA\<lparr>tableIndexMetadataCache := [''orders'' \<mapsto> \<lparr>Indexes = [primaryA]\<rparr>]\<rparr>, Suc 0)"
    by (simp add: pullIndexMetadata_def clientA_def parse_tableA)
  have "fst (chooseIndex clientA 0 ''orders'' exprA) =
     Inl (ErrNoViableIndexes
       [\<lparr>IndexName = tablePrimaryIndexName, NotViableReasons = [''not yet implemented'']\<rparr>])"
    by (simp add: chooseIndex_def p chooseLoop_collects scoreIndexOnExpr_err v)
      (simp add: primaryA_def)
  with v parse_tableA show ?thesis by simp
qed

text \<open>
  C3: for a table with a primary index and a local secondary index, parsed in that
  order, and an expression for which neither index has an infraction, so that both are
  viable with equal scores, \<^verbatim>\<open>chooseIndex\<close> returns the error that no index is viable,
  with the reason \<open>not yet implemented\<close> for each index, instead of the primary index.
\<close>

theorem chooseIndex_tied_primary_and_secondary:
  "parseTableIndexMetadata 1 tableC = Some \<lparr>Indexes = [primaryC, lsiC]\<rparr> \<and>
   listIndexViabilityInfractions primaryC exprA = [] \<and>
   listIndexViabilityInfractions lsiC exprA = [] \<and>
   fst (chooseIndex clientC 0 ''orders'' exprA) =
     Inl (ErrNoViableIndexes
       [\<lparr>IndexName = tablePrimaryIndexName, NotViableReasons = [''not yet implemented'']\<rparr>,
        \<lparr>IndexName = ''byDate'', NotViableReasons = [''not yet implemented'']\<rparr>])"
proof -
  have v1: "listIndexViabilityInfractions primaryC exprA = []"
    by (simp add: listIndexViabilityInfractions_def checkSparse_def checkAttributes_def
        checkOrder_def checkConsistentRead_def checkPartitionKey_def primaryC_def exprA_def)
  have v2: "listIndexViabilityInfractions lsiC exprA = []"
    by (simp add: listIndexViabilityInfractions_def checkSparse_def checkAttributes_def
        checkOrder_def checkConsistentRead_def checkPartitionKey_def lsiC_def exprA_def)
  have p: "pullIndexMetadata clientC 0 ''orders'' =
      (Inr \<lparr>Indexes = [primaryC, lsiC]\<rparr>,
       clientC\<lparr>tableIndexMetadataCache := [''orders'' \<mapsto> \<lparr>Indexes = [primaryC, lsiC]\<rparr>]\<rparr>,
       Suc 0)"
    by (simp add: pullIndexMetadata_def clientC_def parse_tableC)
  have "fst (chooseIndex clientC 0 ''orders'' exprA) =
     Inl (ErrNoViableIndexes
       [\<lparr>IndexName = tablePrimaryIndexName, NotViableReasons = [''not yet implemented'']\<rparr>,
        \<lparr>IndexName = ''byDate'', NotViableReasons = [''not yet implemented'']\<rparr>])"
    by (simp add: chooseIndex_def p chooseLoop_collects scoreIndexOnExpr_err v1 v2)
      (simp add: primaryC_def lsiC_def)
  with v1 v2 parse_tableC show ?thesis by simp
qed

section \<open>Properties of the metadata parser\<close>

















section \<open>Properties of the metadata cache\<close>

lemma pull_hit:
  "tableIndexMetadataCache client tableName = Some md \<Longrightarrow>
     pullIndexMetadata client ps tableName = (Inr md, client, ps)"
  by (simp add: pullIndexMetadata_def)

lemma pull_provider_error:
  "tableIndexMetadataCache client tableName = None \<Longrightarrow>
   metadataProvider client ps tableName = ((td, Some err), ps') \<Longrightarrow>
     pullIndexMetadata client ps tableName = (Inl (ProviderError err), client, ps')"
  by (simp add: pullIndexMetadata_def)

lemma pull_nil_table:
  "tableIndexMetadataCache client tableName = None \<Longrightarrow>
   metadataProvider client ps tableName = ((None, None), ps') \<Longrightarrow>
     pullIndexMetadata client ps tableName = (Inl NilPointerPanic, client, ps')"
  by (simp add: pullIndexMetadata_def)

lemma pull_parse_panic:
  "tableIndexMetadataCache client tableName = None \<Longrightarrow>
   metadataProvider client ps tableName = ((Some table, None), ps') \<Longrightarrow>
   parseTableIndexMetadata (SecondaryIndexSparsenessThreshold client) table = None \<Longrightarrow>
     pullIndexMetadata client ps tableName = (Inl NilPointerPanic, client, ps')"
  by (simp add: pullIndexMetadata_def)

lemma pull_success:
  "tableIndexMetadataCache client tableName = None \<Longrightarrow>
   metadataProvider client ps tableName = ((Some table, None), ps') \<Longrightarrow>
   parseTableIndexMetadata (SecondaryIndexSparsenessThreshold client) table = Some parsed \<Longrightarrow>
     pullIndexMetadata client ps tableName =
        (Inr parsed,
         client\<lparr>tableIndexMetadataCache := (tableIndexMetadataCache client)(tableName \<mapsto> parsed)\<rparr>,
         ps')"
  by (simp add: pullIndexMetadata_def)

lemma pull_changes_only_on_success:
  assumes "fst (snd (pullIndexMetadata client ps tableName)) \<noteq> client"
  shows "\<exists>table' parsed'.
         tableIndexMetadataCache client tableName = None \<and>
         fst (metadataProvider client ps tableName) = (Some table', None) \<and>
         parseTableIndexMetadata (SecondaryIndexSparsenessThreshold client) table' = Some parsed' \<and>
         fst (snd (pullIndexMetadata client ps tableName)) =
           client\<lparr>tableIndexMetadataCache :=
             (tableIndexMetadataCache client)(tableName \<mapsto> parsed')\<rparr>"
proof (cases "tableIndexMetadataCache client tableName")
  case (Some md)
  with assms show ?thesis by (simp add: pull_hit)
next
  case miss: None
  obtain td err ps' where p: "metadataProvider client ps tableName = ((td, err), ps')"
    by (metis prod.exhaust)
  show ?thesis
  proof (cases err)
    case (Some e)
    with assms miss p show ?thesis by (simp add: pull_provider_error)
  next
    case noerr: None
    show ?thesis
    proof (cases td)
      case None
      with assms miss p noerr show ?thesis by (simp add: pull_nil_table)
    next
      case tbl: (Some table)
      show ?thesis
      proof (cases "parseTableIndexMetadata (SecondaryIndexSparsenessThreshold client) table")
        case None
        with assms miss p noerr tbl show ?thesis by (simp add: pull_parse_panic)
      next
        case (Some parsed)
        with miss p noerr tbl show ?thesis by (simp add: pull_success)
      qed
    qed
  qed
qed

text \<open>
  C7: on a cache hit \<^verbatim>\<open>pullIndexMetadata\<close> returns the cached metadata and leaves the
  client and the state of the provider as they were, so the provider is not called. On a
  miss where the provider returns an error, that error is the result and the client is
  unchanged, so the table is still not cached. On a miss where the provider succeeds and
  the description parses, the parsed metadata is returned and stored under the table
  name. The client changes in no other case.
\<close>

theorem pullIndexMetadata_cache:
  "(tableIndexMetadataCache client tableName = Some md \<longrightarrow>
      pullIndexMetadata client ps tableName = (Inr md, client, ps)) \<and>
   (tableIndexMetadataCache client tableName = None \<and>
    metadataProvider client ps tableName = ((td, Some err), ps') \<longrightarrow>
      pullIndexMetadata client ps tableName = (Inl (ProviderError err), client, ps') \<and>
      tableIndexMetadataCache (fst (snd (pullIndexMetadata client ps tableName))) tableName = None) \<and>
   (tableIndexMetadataCache client tableName = None \<and>
    metadataProvider client ps tableName = ((Some table, None), ps') \<and>
    parseTableIndexMetadata (SecondaryIndexSparsenessThreshold client) table = Some parsed \<longrightarrow>
      pullIndexMetadata client ps tableName =
        (Inr parsed,
         client\<lparr>tableIndexMetadataCache := (tableIndexMetadataCache client)(tableName \<mapsto> parsed)\<rparr>,
         ps')) \<and>
   (fst (snd (pullIndexMetadata client ps tableName)) \<noteq> client \<longrightarrow>
      (\<exists>table' parsed'.
         tableIndexMetadataCache client tableName = None \<and>
         fst (metadataProvider client ps tableName) = (Some table', None) \<and>
         parseTableIndexMetadata (SecondaryIndexSparsenessThreshold client) table' = Some parsed' \<and>
         fst (snd (pullIndexMetadata client ps tableName)) =
           client\<lparr>tableIndexMetadataCache :=
             (tableIndexMetadataCache client)(tableName \<mapsto> parsed')\<rparr>))"
proof -
  have "tableIndexMetadataCache client tableName = None \<and>
    metadataProvider client ps tableName = ((td, Some err), ps') \<longrightarrow>
      pullIndexMetadata client ps tableName = (Inl (ProviderError err), client, ps') \<and>
      tableIndexMetadataCache (fst (snd (pullIndexMetadata client ps tableName))) tableName = None"
    by (simp add: pull_provider_error)
  then show ?thesis
    using pull_hit [of client tableName md ps]
      pull_success [of client tableName ps table ps' parsed]
      pull_changes_only_on_success [of client ps tableName]
    by blast
qed

theorem pullIndexMetadata_cache_witness:
  "pullIndexMetadata clientF 0 ''orders'' = (Inl (ProviderError ''throttled''), clientF, 1) \<and>
   pullIndexMetadata clientF 1 ''orders'' = (Inr \<lparr>Indexes = [primaryA]\<rparr>, clientF', 2) \<and>
   clientF' \<noteq> clientF \<and>
   pullIndexMetadata clientF' 2 ''orders'' = (Inr \<lparr>Indexes = [primaryA]\<rparr>, clientF', 2)"
proof -
  have c: "tableIndexMetadataCache clientF ''orders'' = None"
    and e: "metadataProvider clientF 0 ''orders'' = ((None, Some ''throttled''), 1)"
    and s: "metadataProvider clientF 1 ''orders'' = ((Some tableA, None), 2)"
    and t: "SecondaryIndexSparsenessThreshold clientF = 11 / 10"
    and u: "clientF\<lparr>tableIndexMetadataCache :=
              (tableIndexMetadataCache clientF)(''orders'' \<mapsto> \<lparr>Indexes = [primaryA]\<rparr>)\<rparr> = clientF'"
    and h: "tableIndexMetadataCache clientF' ''orders'' = Some \<lparr>Indexes = [primaryA]\<rparr>"
    by (simp_all add: clientF_def clientF'_def)
  have d: "clientF' \<noteq> clientF"
    using c h by auto
  have 1: "pullIndexMetadata clientF 0 ''orders'' = (Inl (ProviderError ''throttled''), clientF, 1)"
    using pullIndexMetadata_cache
      [where client = clientF and tableName = "''orders''" and ps = 0 and td = None
        and err = "''throttled''" and ps' = 1] c e
    by simp
  have 2: "pullIndexMetadata clientF 1 ''orders'' = (Inr \<lparr>Indexes = [primaryA]\<rparr>, clientF', 2)"
    using pullIndexMetadata_cache
      [where client = clientF and tableName = "''orders''" and ps = 1 and ps' = 2
        and table = tableA and parsed = "\<lparr>Indexes = [primaryA]\<rparr>"] c s t u parse_tableA
    by simp
  have 3: "pullIndexMetadata clientF' 2 ''orders'' = (Inr \<lparr>Indexes = [primaryA]\<rparr>, clientF', 2)"
    using pullIndexMetadata_cache
      [where client = clientF' and tableName = "''orders''" and ps = 2
        and md = "\<lparr>Indexes = [primaryA]\<rparr>"] h
    by simp
  from 1 2 3 d show ?thesis by simp
qed

end
